theory Spec2Isabelle
  imports Complex_Main
begin

section \<open>Go values: integers, durations, floating-point numbers, strings\<close>

text \<open>
  Go's \<open>int\<close> and \<open>int64\<close> are 64-bit two's complement integers. They are modelled as
  HOL integers; \<open>wrap64\<close> is the wrap-around of an arithmetic result and \<open>go_div\<close> is
  Go's integer division, which truncates toward zero.
\<close>

definition wrap64 :: "int \<Rightarrow> int" where
  "wrap64 x = (x + 2 ^ 63) mod 2 ^ 64 - 2 ^ 63"

definition maxInt :: int where
  "maxInt = 2 ^ 63 - 1"

definition go_div :: "int \<Rightarrow> int \<Rightarrow> int" where
  "go_div a b = sgn a * sgn b * (\<bar>a\<bar> div \<bar>b\<bar>)"

text \<open>
  A \<open>time.Duration\<close> is a count of nanoseconds; a \<open>time.Time\<close> is modelled as the
  reading of the monotonic clock in nanoseconds. Overflow of the clock arithmetic is
  not modelled.
\<close>

type_synonym Duration = int
type_synonym Time = int

definition Second :: Duration where
  "Second = 1000000000"

definition Add :: "Time \<Rightarrow> Duration \<Rightarrow> Time" where
  "Add t d = t + d"

definition Sub :: "Time \<Rightarrow> Time \<Rightarrow> Duration" where
  "Sub t u = t - u"

definition After :: "Time \<Rightarrow> Time \<Rightarrow> bool" where
  "After t u = (u < t)"

text \<open>
  A \<open>float64\<close> is modelled as an exact real number or one of the IEEE 754 special
  values. Rounding and the sign of zero are not modelled; every divisor in the program
  is the result of \<open>Duration.Seconds\<close>, whose zero is the positive zero.
\<close>

datatype float64 = Finite real | PosInf | NegInf | NaN

definition f64_of_int :: "int \<Rightarrow> float64" where
  "f64_of_int i = Finite (real_of_int i)"

fun f64_mul :: "float64 \<Rightarrow> float64 \<Rightarrow> float64" where
  "f64_mul (Finite a) (Finite b) = Finite (a * b)"
| "f64_mul (Finite a) PosInf = (if a = 0 then NaN else if 0 < a then PosInf else NegInf)"
| "f64_mul (Finite a) NegInf = (if a = 0 then NaN else if 0 < a then NegInf else PosInf)"
| "f64_mul PosInf (Finite b) = (if b = 0 then NaN else if 0 < b then PosInf else NegInf)"
| "f64_mul NegInf (Finite b) = (if b = 0 then NaN else if 0 < b then NegInf else PosInf)"
| "f64_mul PosInf PosInf = PosInf"
| "f64_mul PosInf NegInf = NegInf"
| "f64_mul NegInf PosInf = NegInf"
| "f64_mul NegInf NegInf = PosInf"
| "f64_mul NaN y = NaN"
| "f64_mul x NaN = NaN"

fun f64_div :: "float64 \<Rightarrow> float64 \<Rightarrow> float64" where
  "f64_div (Finite a) (Finite b) =
     (if b = 0 then (if a = 0 then NaN else if 0 < a then PosInf else NegInf)
      else Finite (a / b))"
| "f64_div (Finite a) PosInf = Finite 0"
| "f64_div (Finite a) NegInf = Finite 0"
| "f64_div PosInf (Finite b) = (if 0 \<le> b then PosInf else NegInf)"
| "f64_div NegInf (Finite b) = (if 0 \<le> b then NegInf else PosInf)"
| "f64_div x y = NaN"

fun f64_less :: "float64 \<Rightarrow> float64 \<Rightarrow> bool" where
  "f64_less (Finite a) (Finite b) = (a < b)"
| "f64_less (Finite a) PosInf = True"
| "f64_less NegInf (Finite b) = True"
| "f64_less NegInf PosInf = True"
| "f64_less x y = False"

text \<open>
  The conversion \<open>int(x)\<close> of a \<open>float64\<close> truncates toward zero. Where the value does
  not fit the integer type (and for an infinity or a NaN) Go leaves the result to the
  implementation: \<open>impl\<close> is that result.
\<close>

definition trunc :: "real \<Rightarrow> int" where
  "trunc r = (if 0 \<le> r then \<lfloor>r\<rfloor> else \<lceil>r\<rceil>)"

fun f64_to_int :: "int \<Rightarrow> float64 \<Rightarrow> int" where
  "f64_to_int impl (Finite r) =
     (if - (2 ^ 63) \<le> trunc r \<and> trunc r \<le> maxInt then trunc r else impl)"
| "f64_to_int impl x = impl"

definition Seconds :: "Duration \<Rightarrow> float64" where
  "Seconds d = Finite (real_of_int d / 1000000000)"

subsection \<open>\<open>strconv.Itoa\<close>, \<open>strings.Split\<close>, \<open>strings.Repeat\<close>\<close>

fun digits :: "nat \<Rightarrow> string" where
  "digits n =
     (if n < 10 then [''0123456789'' ! n]
      else digits (n div 10) @ [''0123456789'' ! (n mod 10)])"

declare digits.simps [simp del]

definition Itoa :: "int \<Rightarrow> string" where
  "Itoa i = (if i < 0 then CHR ''-'' # digits (nat (- i)) else digits (nat i))"

text \<open>
  \<open>splitFrom sep cur s\<close> cuts \<open>s\<close> at every occurrence of the non-empty separator
  \<open>sep\<close>, scanning from the left; \<open>cur\<close> holds the piece read so far, reversed.
  The program only ever splits at \<open>/upload.php\<close>.
\<close>

fun splitFrom :: "string \<Rightarrow> string \<Rightarrow> string \<Rightarrow> string list" where
  "splitFrom sep cur [] = [rev cur]"
| "splitFrom sep cur (c # cs) =
     (if sep \<noteq> [] \<and> take (length sep) (c # cs) = sep
      then rev cur # splitFrom sep [] (drop (length sep - 1) cs)
      else splitFrom sep (c # cur) cs)"

definition Split :: "string \<Rightarrow> string \<Rightarrow> string list" where
  "Split s sep = splitFrom sep [] s"

text \<open>
  \<open>strings.Repeat\<close> panics on a negative count and when the length of the result
  overflows \<open>int\<close>, and the runtime fails when it cannot allocate the result:
  \<open>None\<close> is any of the three. \<open>maxAlloc\<close> is the length of the longest string that
  the runtime can allocate, a property of the machine the program runs on.
\<close>

definition Repeat :: "int \<Rightarrow> string \<Rightarrow> int \<Rightarrow> string option" where
  "Repeat maxAlloc s count =
     (if count < 0 then None
      else if maxInt < int (length s) * count then None
      else if maxAlloc < int (length s) * count then None
      else Some (concat (replicate (nat count) s)))"

section \<open>The server descriptor and the endpoint URLs\<close>

text \<open>
  Modelled from the spec: the declarations of \<open>Server\<close> and \<open>ServerType\<close> are not
  among the source files. The spec gives the descriptor a base URL, a protocol kind out of
  Classic (\<open>SpeedtestServer\<close>) and Lightweight (\<open>LibrespeedServer\<close>), the measured
  latency and the two speed results. The transport client \<open>Doer\<close> and the progress
  sink \<open>Prog\<close> are external collaborators: what they return is a parameter of the tests
  below.
\<close>

datatype ServerType = SpeedtestServer | LibrespeedServer

record Server =
  URL :: string
  Type :: ServerType
  Latency :: Duration
  DLSpeed :: float64
  ULSpeed :: float64

definition dlSuffixes :: "int list" where
  "dlSuffixes = [350, 500, 750, 1000, 1500, 2000, 2500, 3000, 3500, 4000]"

definition ulSuffixes :: "int list" where
  "ulSuffixes = [100, 300, 500, 800, 1000, 1500, 2500, 3000, 3500, 4000]"

definition compensationFactor :: float64 where
  "compensationFactor = Finite (104 / 100)"

definition suffixToMB :: "ServerType \<Rightarrow> int \<Rightarrow> float64" where
  "suffixToMB serverType suffix =
     (if serverType = LibrespeedServer then f64_of_int suffix
      else f64_div (f64_div (f64_mul (f64_mul (f64_of_int suffix) (f64_of_int suffix))
             (Finite 2)) (Finite 1000)) (Finite 1000))"

definition getDownloadURL :: "string \<Rightarrow> ServerType \<Rightarrow> int \<Rightarrow> string" where
  "getDownloadURL serverUrl serverType suffix =
     (if serverType = SpeedtestServer
      then hd (Split serverUrl ''/upload.php'') @ ''/random'' @ Itoa suffix @ ''x''
             @ Itoa suffix @ ''.jpg''
      else serverUrl @ ''/garbage?cors=true&ckSize='' @ Itoa suffix)"

definition getUploadURL :: "string \<Rightarrow> ServerType \<Rightarrow> string" where
  "getUploadURL serverUrl serverType =
     (if serverType = SpeedtestServer then serverUrl
      else serverUrl @ ''/empty?cors=true&ckSize=10'')"

definition getPingURL :: "string \<Rightarrow> ServerType \<Rightarrow> string" where
  "getPingURL serverUrl serverType =
     (if serverType = SpeedtestServer
      then hd (Split serverUrl ''/upload.php'') @ ''/latency.txt''
      else serverUrl @ ''/empty?cors=true&ckSize=1'')"

text \<open>
  The form value that \<open>ulWarmUp\<close> and \<open>uploadRequest\<close> add under the key
  \<open>content\<close>: \<open>strings.Repeat("0123456789", sizeKB*100-51)\<close>.
\<close>

definition uploadContent :: "int \<Rightarrow> int \<Rightarrow> string option" where
  "uploadContent maxAlloc sizeKB =
     Repeat maxAlloc ''0123456789'' (wrap64 (wrap64 (sizeKB * 100) - 51))"

section \<open>The transport, seen from the tests\<close>

text \<open>
  The HTTP client is an external collaborator. A transfer task hands it a request, and
  what comes back is a parameter of the model: for a warm-up task the error it returns
  (\<open>None\<close> is \<open>nil\<close>), for a task of the main phase also the chunk lengths that the
  tee writer saw. A \<open>Post\<close> carries the size parameter of its payload.
\<close>

type_synonym error = string

datatype request = Get string | Post string int

record task_run =
  chunks :: "nat list"
  taskErr :: "error option"

definition dlWarmUp :: "(request \<Rightarrow> error option) \<Rightarrow> ServerType \<Rightarrow> string \<Rightarrow> int \<Rightarrow> error option" where
  "dlWarmUp doer serverType dlURL suffix = doer (Get (getDownloadURL dlURL serverType suffix))"

definition ulWarmUp :: "(request \<Rightarrow> error option) \<Rightarrow> ServerType \<Rightarrow> string \<Rightarrow> int \<Rightarrow> error option" where
  "ulWarmUp doer serverType ulURL sizeKB = doer (Post (getUploadURL ulURL serverType) sizeKB)"

definition downloadRequest :: "(request \<Rightarrow> task_run) \<Rightarrow> ServerType \<Rightarrow> string \<Rightarrow> int \<Rightarrow> task_run" where
  "downloadRequest doer serverType dlURL suffix = doer (Get (getDownloadURL dlURL serverType suffix))"

definition uploadRequest :: "(request \<Rightarrow> task_run) \<Rightarrow> ServerType \<Rightarrow> string \<Rightarrow> int \<Rightarrow> task_run" where
  "uploadRequest doer serverType ulURL sizeKB = doer (Post (getUploadURL ulURL serverType) sizeKB)"

text \<open>
  \<open>errgroup.Group.Wait\<close> returns the first error that a task of the group returned; the
  list holds the results in the order in which the tasks finished.
\<close>

fun egWait :: "error option list \<Rightarrow> error option" where
  "egWait [] = None"
| "egWait (None # rs) = egWait rs"
| "egWait (Some e # rs) = Some e"

text \<open>
  One turn of the admission loop of the main phase: the clock reading and the state of
  the deadline context at the check, and the transport's answer to the task that the
  turn launches when the check lets it through.
\<close>

record tick =
  tickNow :: Time
  tickCtxErr :: bool
  tickDoer :: "request \<Rightarrow> task_run"

text \<open>
  What the environment supplies to one download or upload test: the clock readings
  around the warm-up, the warm-up tasks' results, the implementation's result of an
  out-of-range float conversion, the clock readings around the main phase and the turns
  of its admission loop.
\<close>

record env =
  wuStart :: Time
  wuDoer :: "nat \<Rightarrow> request \<Rightarrow> error option"
  wuEnd :: Time
  implInt :: int
  mainStart :: Time
  mainTicks :: "tick list"
  mainEnd :: Time

section \<open>The measurement engine\<close>

text \<open>
  The admission loop: every turn that passes the deadline check launches \<open>task\<close>. The
  result is \<open>None\<close> when the turns run out before the check stops the loop, otherwise
  the runs of the tasks launched.
\<close>

fun admit :: "Time \<Rightarrow> (tick \<Rightarrow> task_run) \<Rightarrow> tick list \<Rightarrow> task_run list option" where
  "admit eTime task [] = None"
| "admit eTime task (t # ts) =
     (if After (tickNow t) eTime \<or> tickCtxErr t then Some []
      else map_option ((#) (task t)) (admit eTime task ts))"

text \<open>
  The tee writer of a transfer task reports the length of every non-empty chunk;
  \<open>byteTracker\<close> adds it, converted to \<open>int64\<close>, to the counter of the phase.
\<close>

definition reported :: "task_run \<Rightarrow> nat list" where
  "reported t = filter (\<lambda>n. n \<noteq> 0) (chunks t)"

definition byteTracker :: "int \<Rightarrow> nat \<Rightarrow> int" where
  "byteTracker counter nbytes = wrap64 (counter + wrap64 (int nbytes))"

definition totalBytes :: "task_run list \<Rightarrow> int" where
  "totalBytes tasks = foldl byteTracker 0 (concat (map reported tasks))"

definition mainSpeed :: "int \<Rightarrow> Time \<Rightarrow> Time \<Rightarrow> float64" where
  "mainSpeed counter sTime fTime =
     f64_div (f64_mul (f64_mul (f64_of_int (go_div (go_div counter 1024) 1024))
       compensationFactor) (Finite 8)) (Seconds (Sub fTime sTime))"

subsection \<open>Download\<close>

text \<open>
  \<open>downloadTestContext\<close> (request.go, lines 43 to 149) in its four steps: the warm-up
  (lines 52 to 82: ten concurrent tasks, then the warm-up speed from the time spent), the
  choice of streams and weight (lines 85 to 104), the choice of the payload size (lines
  106 to 112), and the main phase (lines 115 to 147). \<open>uploadTestContext\<close> (lines 160
  to 247) has the same steps, with two warm-up tasks and no fallback for the time spent.
\<close>

definition dlTimeSpent :: "Duration \<Rightarrow> Time \<Rightarrow> Time \<Rightarrow> float64" where
  "dlTimeSpent latency sTime fTime =
     (let timeSpent = Seconds (Sub fTime (Add sTime latency))
      in if f64_less timeSpent (Finite 0) then Seconds (Sub fTime sTime) else timeSpent)"

definition dlWarmUpPhase :: "Server \<Rightarrow> env \<Rightarrow> error + float64" where
  "dlWarmUpPhase s e =
     (let suffix = (if Type s = LibrespeedServer then 1 else dlSuffixes ! 2);
          streams = 10
      in case egWait (map (\<lambda>i. dlWarmUp (wuDoer e i) (Type s) (URL s) suffix) [0..<streams]) of
           Some err \<Rightarrow> Inl err
         | None \<Rightarrow>
            (let timeSpent = dlTimeSpent (Latency s) (wuStart e) (wuEnd e)
             in Inr (f64_div (f64_mul (f64_mul (f64_of_int (int streams))
                       (suffixToMB (Type s) suffix)) (Finite 8)) timeSpent)))"

definition dlDecide :: "bool \<Rightarrow> float64 \<Rightarrow> nat \<Rightarrow> nat \<times> nat \<times> bool" where
  "dlDecide savingMode wuSpeed streams =
     (if savingMode then (6, 3, False)
      else if f64_less (Finite 50) wuSpeed then (32, 6, False)
      else if f64_less (Finite 10) wuSpeed then (16, 4, False)
      else if f64_less (Finite 4) wuSpeed then (8, 4, False)
      else if f64_less (Finite (5 / 2)) wuSpeed then (4, 4, False)
      else (streams, 0, True))"

definition dlSuffix :: "int \<Rightarrow> ServerType \<Rightarrow> float64 \<Rightarrow> nat \<Rightarrow> nat \<Rightarrow> Duration \<Rightarrow> int" where
  "dlSuffix impl serverType wuSpeed streams weight duration =
     (if serverType = LibrespeedServer
      then f64_to_int impl (f64_mul (f64_div (f64_div wuSpeed (Finite 8))
             (f64_of_int (int streams))) (Seconds duration))
      else dlSuffixes ! weight)"

definition dlMainPhase :: "Server \<Rightarrow> Duration \<Rightarrow> int \<Rightarrow> env \<Rightarrow> task_run list option" where
  "dlMainPhase s duration suffix e =
     admit (Add (mainStart e) duration)
       (\<lambda>t. downloadRequest (tickDoer t) (Type s) (URL s) suffix) (mainTicks e)"

definition downloadTestContext :: "Server \<Rightarrow> bool \<Rightarrow> Duration \<Rightarrow> env \<Rightarrow> (error option \<times> Server) option" where
  "downloadTestContext s savingMode duration e =
     (case dlWarmUpPhase s e of
        Inl err \<Rightarrow> Some (Some err, s)
      | Inr wuSpeed \<Rightarrow>
         (let (streams, weight, skip) = dlDecide savingMode wuSpeed 10;
              suffix = dlSuffix (implInt e) (Type s) wuSpeed streams weight duration
          in if skip then Some (None, s\<lparr>DLSpeed := wuSpeed\<rparr>)
             else (case dlMainPhase s duration suffix e of
                     None \<Rightarrow> None
                   | Some tasks \<Rightarrow>
                       Some (None, s\<lparr>DLSpeed :=
                         mainSpeed (totalBytes tasks) (mainStart e) (mainEnd e)\<rparr>))))"

definition DownloadTestContext :: "Server \<Rightarrow> bool \<Rightarrow> Duration \<Rightarrow> env \<Rightarrow> (error option \<times> Server) option" where
  "DownloadTestContext s savingMode duration e = downloadTestContext s savingMode duration e"

definition DownloadTest :: "Server \<Rightarrow> bool \<Rightarrow> Duration \<Rightarrow> env \<Rightarrow> (error option \<times> Server) option" where
  "DownloadTest s savingMode duration e = downloadTestContext s savingMode duration e"

subsection \<open>Upload\<close>

definition ulWarmUpPhase :: "Server \<Rightarrow> env \<Rightarrow> error + float64" where
  "ulWarmUpPhase s e =
     (let sizeKB = dlSuffixes ! 4;
          streams = 2
      in case egWait (map (\<lambda>i. ulWarmUp (wuDoer e i) (Type s) (URL s) sizeKB) [0..<streams]) of
           Some err \<Rightarrow> Inl err
         | None \<Rightarrow>
            Inr (f64_div (f64_mul (f64_mul (Finite 2) (Finite 1)) (Finite 8))
                   (Seconds (Sub (wuEnd e) (Add (wuStart e) (Latency s))))))"

definition ulDecide :: "bool \<Rightarrow> float64 \<Rightarrow> nat \<Rightarrow> nat \<times> nat \<times> bool" where
  "ulDecide savingMode wuSpeed streams =
     (if savingMode then (1, 7, False)
      else if f64_less (Finite 50) wuSpeed then (40, 9, False)
      else if f64_less (Finite 10) wuSpeed then (16, 9, False)
      else if f64_less (Finite 4) wuSpeed then (8, 9, False)
      else if f64_less (Finite (5 / 2)) wuSpeed then (4, 5, False)
      else (streams, 0, True))"

definition ulMainPhase :: "Server \<Rightarrow> Duration \<Rightarrow> int \<Rightarrow> env \<Rightarrow> task_run list option" where
  "ulMainPhase s duration sizeKB e =
     admit (Add (mainStart e) duration)
       (\<lambda>t. uploadRequest (tickDoer t) (Type s) (URL s) sizeKB) (mainTicks e)"

definition uploadTestContext :: "Server \<Rightarrow> bool \<Rightarrow> Duration \<Rightarrow> env \<Rightarrow> (error option \<times> Server) option" where
  "uploadTestContext s savingMode duration e =
     (case ulWarmUpPhase s e of
        Inl err \<Rightarrow> Some (Some err, s)
      | Inr wuSpeed \<Rightarrow>
         (let (streams, weight, skip) = ulDecide savingMode wuSpeed 2;
              sizeKB = ulSuffixes ! weight
          in if skip then Some (None, s\<lparr>ULSpeed := wuSpeed\<rparr>)
             else (case ulMainPhase s duration sizeKB e of
                     None \<Rightarrow> None
                   | Some tasks \<Rightarrow>
                       Some (None, s\<lparr>ULSpeed :=
                         mainSpeed (totalBytes tasks) (mainStart e) (mainEnd e)\<rparr>))))"

definition UploadTestContext :: "Server \<Rightarrow> bool \<Rightarrow> Duration \<Rightarrow> env \<Rightarrow> (error option \<times> Server) option" where
  "UploadTestContext s savingMode duration e = uploadTestContext s savingMode duration e"

definition UploadTest :: "Server \<Rightarrow> bool \<Rightarrow> Duration \<Rightarrow> env \<Rightarrow> (error option \<times> Server) option" where
  "UploadTest s savingMode duration e = uploadTestContext s savingMode duration e"

subsection \<open>Latency probe\<close>

text \<open>
  One round trip of the probe: building the request fails, or the transport fails, or
  the response arrives after the span \<open>fTime.Sub(sTime)\<close>. The loop keeps the
  smallest span in \<open>l\<close>, which starts at ten seconds.
\<close>

datatype attempt = NewRequestError error | DoError error | Reply Duration

function pingLoop :: "(nat \<Rightarrow> attempt) \<Rightarrow> nat \<Rightarrow> Duration \<Rightarrow> error + Duration" where
  "pingLoop doer i l =
     (if i < 3 then
        (case doer i of
           NewRequestError err \<Rightarrow> Inl err
         | DoError err \<Rightarrow> Inl err
         | Reply d \<Rightarrow> pingLoop doer (i + 1) (if d < l then d else l))
      else Inr l)"
  by pat_completeness auto
termination
  by (relation "measure (\<lambda>(doer, i, l). 3 - i)") auto

declare pingLoop.simps [simp del]

definition pingRequest :: "Server \<Rightarrow> request" where
  "pingRequest s = Get (getPingURL (URL s) (Type s))"

definition PingTestContext :: "Server \<Rightarrow> (nat \<Rightarrow> request \<Rightarrow> attempt) \<Rightarrow> error option \<times> Server" where
  "PingTestContext s doer =
     (case pingLoop (\<lambda>i. doer i (pingRequest s)) 0 (Second * 10) of
        Inl err \<Rightarrow> (Some err, s)
      | Inr l \<Rightarrow> (None, s\<lparr>Latency := go_div l 2\<rparr>))"

definition PingTest :: "Server \<Rightarrow> (nat \<Rightarrow> request \<Rightarrow> attempt) \<Rightarrow> error option \<times> Server" where
  "PingTest s doer = PingTestContext s doer"

section \<open>The selection tables in the spec's words\<close>

text \<open>
  The spec discretizes the warm-up speed by descending threshold comparison (above 50,
  above 10, above 4, above 2.5, else too slow) and maps each bucket to a pair of stream
  count and payload weight; the pairs are those of the two selection chains.
\<close>

datatype bucket = Above50 | Above10 | Above4 | Above2_5 | TooSlow

definition speedBucket :: "float64 \<Rightarrow> bucket" where
  "speedBucket wuSpeed =
     (if f64_less (Finite 50) wuSpeed then Above50
      else if f64_less (Finite 10) wuSpeed then Above10
      else if f64_less (Finite 4) wuSpeed then Above4
      else if f64_less (Finite (5 / 2)) wuSpeed then Above2_5
      else TooSlow)"

fun dlTable :: "bucket \<Rightarrow> (nat \<times> nat) option" where
  "dlTable Above50 = Some (32, 6)"
| "dlTable Above10 = Some (16, 4)"
| "dlTable Above4 = Some (8, 4)"
| "dlTable Above2_5 = Some (4, 4)"
| "dlTable TooSlow = None"

fun ulTable :: "bucket \<Rightarrow> (nat \<times> nat) option" where
  "ulTable Above50 = Some (40, 9)"
| "ulTable Above10 = Some (16, 9)"
| "ulTable Above4 = Some (8, 9)"
| "ulTable Above2_5 = Some (4, 5)"
| "ulTable TooSlow = None"

section \<open>Example runs\<close>

text \<open>
  A Classic and a Lightweight server, and environments in which every warm-up task
  succeeds (\<open>runEnv\<close>) or fails (\<open>failEnv\<close>). The warm-up starts at clock reading 0
  and ends after \<open>wuSpan\<close>; the main phase starts then and ends after \<open>mainSpan\<close>.
\<close>

definition classicServer :: "Duration \<Rightarrow> Server" where
  "classicServer latency =
     \<lparr>URL = ''http://x/upload.php'', Type = SpeedtestServer, Latency = latency,
      DLSpeed = Finite 0, ULSpeed = Finite 0\<rparr>"

definition lightServer :: "Duration \<Rightarrow> Server" where
  "lightServer latency =
     \<lparr>URL = ''http://y'', Type = LibrespeedServer, Latency = latency,
      DLSpeed = Finite 0, ULSpeed = Finite 0\<rparr>"

definition launchTick :: "Time \<Rightarrow> nat list \<Rightarrow> error option \<Rightarrow> tick" where
  "launchTick t cs r =
     \<lparr>tickNow = t, tickCtxErr = False, tickDoer = (\<lambda>req. \<lparr>chunks = cs, taskErr = r\<rparr>)\<rparr>"

definition stopTick :: "Time \<Rightarrow> tick" where
  "stopTick t =
     \<lparr>tickNow = t, tickCtxErr = True, tickDoer = (\<lambda>req. \<lparr>chunks = [], taskErr = None\<rparr>)\<rparr>"

definition runEnv :: "Duration \<Rightarrow> tick list \<Rightarrow> Duration \<Rightarrow> env" where
  "runEnv wuSpan ticks mainSpan =
     \<lparr>wuStart = 0, wuDoer = (\<lambda>i req. None), wuEnd = wuSpan, implInt = 0,
      mainStart = wuSpan, mainTicks = ticks, mainEnd = wuSpan + mainSpan\<rparr>"

definition failEnv :: "error \<Rightarrow> env" where
  "failEnv err =
     \<lparr>wuStart = 0, wuDoer = (\<lambda>i req. Some err), wuEnd = Second, implInt = 0,
      mainStart = Second, mainTicks = [], mainEnd = Second\<rparr>"

section \<open>Supporting lemmas\<close>

subsection \<open>Integers, strings, lists\<close>

lemma wrap64_id: "- (2 ^ 63) \<le> x \<Longrightarrow> x < 2 ^ 63 \<Longrightarrow> wrap64 x = x"
  unfolding wrap64_def by (simp add: mod_pos_pos_trivial)

lemma byteTracker_small:
  assumes "0 \<le> c" "c < 2 ^ 62" "n < 2 ^ 62"
  shows "byteTracker c n = c + int n"
proof -
  have n: "int n < 2 ^ 62"
    using assms(3) by (metis of_nat_less_iff of_nat_numeral of_nat_power)
  have "wrap64 (int n) = int n"
    using n by (intro wrap64_id) auto
  moreover have "wrap64 (c + int n) = c + int n"
    using assms n by (intro wrap64_id) auto
  ultimately show ?thesis by (simp add: byteTracker_def)
qed

lemma go_div_2_nonneg: "0 \<le> l \<Longrightarrow> go_div l 2 = l div 2"
  by (simp add: go_div_def sgn_if)

lemma go_div_2_le: "l \<le> Second * 10 \<Longrightarrow> go_div l 2 \<le> Second * 5"
  by (auto simp: go_div_def sgn_if Second_def)

lemma splitFrom_nonempty: "splitFrom sep cur s \<noteq> []"
  by (induction sep cur s rule: splitFrom.induct) auto

lemma length_concat_replicate: "length (concat (replicate n s)) = n * length s"
  by (induction n) auto

lemma replicate_4: "replicate 4 x = [x, x, x, x]"
  by (simp add: eval_nat_numeral)

subsection \<open>The join and the admission loop\<close>

lemma egWait_all_nil: "egWait (map (\<lambda>i. None) xs) = None"
  by (induction xs) auto

lemma egWait_all_fail: "xs \<noteq> [] \<Longrightarrow> egWait (map (\<lambda>i. Some err) xs) = Some err"
  by (cases xs) auto

text \<open>
  The admission loop returns as soon as one turn finds the deadline passed or the
  context done.
\<close>

lemma admit_stops:
  "list_ex (\<lambda>t. After (tickNow t) eTime \<or> tickCtxErr t) ts \<Longrightarrow> admit eTime task ts \<noteq> None"
  by (induction ts) auto

lemma admit_returns:
  assumes "list_ex (\<lambda>t. After (tickNow t) eTime \<or> tickCtxErr t) ts"
  shows "\<exists>tasks. admit eTime task ts = Some tasks"
  using admit_stops [OF assms] by auto

lemma admit_four_then_stop:
  "admit (Add a Second) task (replicate 4 (launchTick a cs r) @ [stopTick (a + Second)])
     = Some (replicate 4 (task (launchTick a cs r)))"
  by (simp add: replicate_4 launchTick_def stopTick_def After_def Add_def Second_def)

subsection \<open>The latency probe\<close>

lemma pingLoop_done: "pingLoop doer 3 l = Inr l"
  by (simp add: pingLoop.simps)

lemma pingLoop_0:
  "pingLoop doer 0 l =
     (case doer 0 of NewRequestError e \<Rightarrow> Inl e | DoError e \<Rightarrow> Inl e
      | Reply d \<Rightarrow> pingLoop doer 1 (min d l))"
  by (subst pingLoop.simps)
    (auto simp: min_def numeral_2_eq_2 numeral_3_eq_3 split: attempt.splits)

lemma pingLoop_1:
  "pingLoop doer 1 l =
     (case doer 1 of NewRequestError e \<Rightarrow> Inl e | DoError e \<Rightarrow> Inl e
      | Reply d \<Rightarrow> pingLoop doer 2 (min d l))"
  by (subst pingLoop.simps)
    (auto simp: min_def numeral_2_eq_2 numeral_3_eq_3 split: attempt.splits)

lemma pingLoop_2:
  "pingLoop doer 2 l =
     (case doer 2 of NewRequestError e \<Rightarrow> Inl e | DoError e \<Rightarrow> Inl e
      | Reply d \<Rightarrow> pingLoop doer 3 (min d l))"
  by (subst pingLoop.simps)
    (auto simp: min_def numeral_2_eq_2 numeral_3_eq_3 split: attempt.splits)

lemma pingLoop_replies:
  assumes "doer 0 = Reply a" "doer 1 = Reply b" "doer 2 = Reply c"
  shows "pingLoop doer 0 l = Inr (min c (min b (min a l)))"
  by (simp only: pingLoop_0 pingLoop_1 pingLoop_2 pingLoop_done assms attempt.case)

lemma pingLoop_Inr:
  assumes "pingLoop doer 0 l = Inr m"
  shows "\<exists>a b c. doer 0 = Reply a \<and> doer 1 = Reply b \<and> doer 2 = Reply c"
  using assms
  by (simp only: pingLoop_0 pingLoop_1 pingLoop_2 pingLoop_done split: attempt.splits) auto

lemma PingTestContext_replies:
  assumes "doer 0 (pingRequest s) = Reply t1" "doer 1 (pingRequest s) = Reply t2"
    "doer 2 (pingRequest s) = Reply t3"
  shows "PingTestContext s doer =
     (None, s\<lparr>Latency := go_div (min (Second * 10) (min t1 (min t2 t3))) 2\<rparr>)"
proof -
  have "min t3 (min t2 (min t1 (Second * 10))) = min (Second * 10) (min t1 (min t2 t3))"
    by (simp add: min_def)
  moreover have "pingLoop (\<lambda>i. doer i (pingRequest s)) 0 (Second * 10)
      = Inr (min t3 (min t2 (min t1 (Second * 10))))"
    by (rule pingLoop_replies) (simp_all only: assms)
  ultimately show ?thesis
    by (simp add: PingTestContext_def)
qed

lemma PingTestContext_error:
  assumes "PingTestContext s doer = (Some err, s')"
  shows "s' = s"
  using assms by (auto simp: PingTestContext_def split: sum.splits)

lemma PingTestContext_success:
  assumes "PingTestContext s doer = (None, s')"
  shows "\<exists>t1 t2 t3. doer 0 (pingRequest s) = Reply t1 \<and> doer 1 (pingRequest s) = Reply t2
    \<and> doer 2 (pingRequest s) = Reply t3"
proof -
  obtain m where "pingLoop (\<lambda>i. doer i (pingRequest s)) 0 (Second * 10) = Inr m"
    using assms by (auto simp: PingTestContext_def split: sum.splits)
  then show ?thesis by (rule pingLoop_Inr)
qed

lemma PingTestContext_second_fails:
  "PingTestContext s (\<lambda>i req. if i = 1 then DoError err else Reply 30000000) = (Some err, s)"
  by (simp add: PingTestContext_def pingLoop_0 pingLoop_1 del: One_nat_def)

subsection \<open>The two tests, phase by phase\<close>

lemma downloadTestContext_main:
  assumes "dlWarmUpPhase s e = Inr w" "dlDecide sm w 10 = (st, wt, False)"
    "dlMainPhase s d (dlSuffix (implInt e) (Type s) w st wt d) e = Some tasks"
  shows "downloadTestContext s sm d e =
    Some (None, s\<lparr>DLSpeed := mainSpeed (totalBytes tasks) (mainStart e) (mainEnd e)\<rparr>)"
  using assms by (simp add: downloadTestContext_def)

lemma uploadTestContext_main:
  assumes "ulWarmUpPhase s e = Inr w" "ulDecide sm w 2 = (st, wt, False)"
    "ulMainPhase s d (ulSuffixes ! wt) e = Some tasks"
  shows "uploadTestContext s sm d e =
    Some (None, s\<lparr>ULSpeed := mainSpeed (totalBytes tasks) (mainStart e) (mainEnd e)\<rparr>)"
  using assms by (simp add: uploadTestContext_def)

lemma downloadTestContext_skip:
  assumes "dlWarmUpPhase s e = Inr w" "\<not> f64_less (Finite (5 / 2)) w"
  shows "downloadTestContext s False d e = Some (None, s\<lparr>DLSpeed := w\<rparr>)"
proof -
  have "\<not> f64_less (Finite 4) w" "\<not> f64_less (Finite 10) w" "\<not> f64_less (Finite 50) w"
    using assms(2) by (cases w; simp)+
  then have "dlDecide False w 10 = (10, 0, True)"
    using assms(2) by (simp add: dlDecide_def)
  then show ?thesis
    using assms(1) by (simp add: downloadTestContext_def)
qed

lemma uploadTestContext_skip:
  assumes "ulWarmUpPhase s e = Inr w" "\<not> f64_less (Finite (5 / 2)) w"
  shows "uploadTestContext s False d e = Some (None, s\<lparr>ULSpeed := w\<rparr>)"
proof -
  have "\<not> f64_less (Finite 4) w" "\<not> f64_less (Finite 10) w" "\<not> f64_less (Finite 50) w"
    using assms(2) by (cases w; simp)+
  then have "ulDecide False w 2 = (2, 0, True)"
    using assms(2) by (simp add: ulDecide_def)
  then show ?thesis
    using assms(1) by (simp add: uploadTestContext_def)
qed

lemma downloadTestContext_error:
  assumes "downloadTestContext s sm d e = Some (Some err, s')"
  shows "s' = s"
  using assms
  by (auto simp: downloadTestContext_def Let_def
      split: sum.splits prod.splits if_splits option.splits)

lemma uploadTestContext_error:
  assumes "uploadTestContext s sm d e = Some (Some err, s')"
  shows "s' = s"
  using assms
  by (auto simp: uploadTestContext_def Let_def
      split: sum.splits prod.splits if_splits option.splits)

text \<open>
  A main phase whose admission loop meets a stop turn returns, and the test stores the
  speed computed from the counter: 0 when no task reported a byte and time has passed.
\<close>

lemma totalBytes_nothing_reported:
  "list_all (\<lambda>t. reported t = []) tasks \<Longrightarrow> totalBytes tasks = 0"
proof -
  assume "list_all (\<lambda>t. reported t = []) tasks"
  then have "concat (map reported tasks) = []"
    by (induction tasks) auto
  then show ?thesis unfolding totalBytes_def by (simp only: foldl.simps)
qed

lemma mainSpeed_no_bytes: "a < b \<Longrightarrow> mainSpeed 0 a b = Finite 0"
  by (simp add: mainSpeed_def go_div_def compensationFactor_def f64_of_int_def Seconds_def
      Sub_def)

lemma downloadTestContext_total:
  assumes wu: "dlWarmUpPhase s e = Inr w" and dec: "dlDecide sm w 10 = (st, wt, False)"
    and stop: "list_ex (\<lambda>t. After (tickNow t) (Add (mainStart e) d) \<or> tickCtxErr t) (mainTicks e)"
  shows "\<exists>tasks. dlMainPhase s d (dlSuffix (implInt e) (Type s) w st wt d) e = Some tasks
      \<and> downloadTestContext s sm d e =
           Some (None, s\<lparr>DLSpeed := mainSpeed (totalBytes tasks) (mainStart e) (mainEnd e)\<rparr>)
      \<and> (list_all (\<lambda>t. reported t = []) tasks \<and> mainStart e < mainEnd e \<longrightarrow>
           downloadTestContext s sm d e = Some (None, s\<lparr>DLSpeed := Finite 0\<rparr>))"
proof -
  obtain tasks where t: "dlMainPhase s d (dlSuffix (implInt e) (Type s) w st wt d) e = Some tasks"
    unfolding dlMainPhase_def using admit_returns [OF stop] by blast
  have run: "downloadTestContext s sm d e =
      Some (None, s\<lparr>DLSpeed := mainSpeed (totalBytes tasks) (mainStart e) (mainEnd e)\<rparr>)"
    by (rule downloadTestContext_main [OF wu dec t])
  have "downloadTestContext s sm d e = Some (None, s\<lparr>DLSpeed := Finite 0\<rparr>)"
    if "list_all (\<lambda>t. reported t = []) tasks" "mainStart e < mainEnd e"
    using run that by (simp add: totalBytes_nothing_reported mainSpeed_no_bytes)
  then show ?thesis using t run by blast
qed

lemma uploadTestContext_total:
  assumes wu: "ulWarmUpPhase s e = Inr w" and dec: "ulDecide sm w 2 = (st, wt, False)"
    and stop: "list_ex (\<lambda>t. After (tickNow t) (Add (mainStart e) d) \<or> tickCtxErr t) (mainTicks e)"
  shows "\<exists>tasks. ulMainPhase s d (ulSuffixes ! wt) e = Some tasks
      \<and> uploadTestContext s sm d e =
           Some (None, s\<lparr>ULSpeed := mainSpeed (totalBytes tasks) (mainStart e) (mainEnd e)\<rparr>)
      \<and> (list_all (\<lambda>t. reported t = []) tasks \<and> mainStart e < mainEnd e \<longrightarrow>
           uploadTestContext s sm d e = Some (None, s\<lparr>ULSpeed := Finite 0\<rparr>))"
proof -
  obtain tasks where t: "ulMainPhase s d (ulSuffixes ! wt) e = Some tasks"
    unfolding ulMainPhase_def using admit_returns [OF stop] by blast
  have run: "uploadTestContext s sm d e =
      Some (None, s\<lparr>ULSpeed := mainSpeed (totalBytes tasks) (mainStart e) (mainEnd e)\<rparr>)"
    by (rule uploadTestContext_main [OF wu dec t])
  have "uploadTestContext s sm d e = Some (None, s\<lparr>ULSpeed := Finite 0\<rparr>)"
    if "list_all (\<lambda>t. reported t = []) tasks" "mainStart e < mainEnd e"
    using run that by (simp add: totalBytes_nothing_reported mainSpeed_no_bytes)
  then show ?thesis using t run by blast
qed

text \<open>The warm-up reads nothing of what the environment supplies to the main phase.\<close>

lemma dlWarmUpPhase_main_fields:
  "dlWarmUpPhase s (e\<lparr>mainStart := a, mainTicks := ts, mainEnd := b\<rparr>) = dlWarmUpPhase s e"
  by (simp add: dlWarmUpPhase_def Let_def cong: option.case_cong)

lemma ulWarmUpPhase_main_fields:
  "ulWarmUpPhase s (e\<lparr>mainStart := a, mainTicks := ts, mainEnd := b\<rparr>) = ulWarmUpPhase s e"
  by (simp add: ulWarmUpPhase_def Let_def cong: option.case_cong)

lemma dlDecide_table:
  "dlDecide savingMode w n =
     (if savingMode then (6, 3, False)
      else case dlTable (speedBucket w) of
             Some (st, wt) \<Rightarrow> (st, wt, False)
           | None \<Rightarrow> (n, 0, True))"
  by (simp add: dlDecide_def speedBucket_def)

lemma ulDecide_table:
  "ulDecide savingMode w n =
     (if savingMode then (1, 7, False)
      else case ulTable (speedBucket w) of
             Some (st, wt) \<Rightarrow> (st, wt, False)
           | None \<Rightarrow> (n, 0, True))"
  by (simp add: ulDecide_def speedBucket_def)

text \<open>
  For a Lightweight server the payload size of a download is computed from the warm-up
  speed, the streams and the duration (spec 4.4): at 60 Mbps, 32 streams and ten seconds
  it is \<open>int(60 / 8 / 32 * 10) = 2\<close>.
\<close>

lemma lightweight_payload_size:
  "dlSuffix impl LibrespeedServer (Finite 60) 32 6 (Second * 10) = 2"
  by (simp add: dlSuffix_def Seconds_def Second_def f64_of_int_def trunc_def maxInt_def)

subsection \<open>The example runs\<close>

lemma runEnv_main_fields:
  "(runEnv wuSpan ts0 m0)\<lparr>mainStart := wuSpan, mainTicks := ts, mainEnd := wuSpan + m\<rparr>
     = runEnv wuSpan ts m"
  by (simp add: runEnv_def)

lemma dlWarmUpPhase_runEnv:
  "dlWarmUpPhase s (runEnv wuSpan ticks mainSpan) =
     Inr (f64_div (f64_mul (f64_mul (f64_of_int 10)
            (suffixToMB (Type s) (if Type s = LibrespeedServer then 1 else 750))) (Finite 8))
          (dlTimeSpent (Latency s) 0 wuSpan))"
  by (simp add: dlWarmUpPhase_def runEnv_def dlWarmUp_def egWait_all_nil dlSuffixes_def)

lemma ulWarmUpPhase_runEnv:
  "ulWarmUpPhase s (runEnv wuSpan ticks mainSpan) =
     Inr (f64_div (Finite 16) (Seconds (Sub wuSpan (Add 0 (Latency s)))))"
  by (simp add: ulWarmUpPhase_def runEnv_def ulWarmUp_def egWait_all_nil)

lemma dlWarmUpPhase_failEnv: "dlWarmUpPhase s (failEnv err) = Inl err"
  by (simp add: dlWarmUpPhase_def failEnv_def dlWarmUp_def egWait_all_fail del: upt_conv_Cons)

lemma ulWarmUpPhase_failEnv: "ulWarmUpPhase s (failEnv err) = Inl err"
  by (simp add: ulWarmUpPhase_def failEnv_def ulWarmUp_def egWait_all_fail)

lemma classic_warm_up_60:
  "dlWarmUpPhase (classicServer 0) (runEnv 1500000000 ticks m) = Inr (Finite 60)"
  by (simp add: dlWarmUpPhase_runEnv classicServer_def suffixToMB_def f64_of_int_def
      dlTimeSpent_def Seconds_def Sub_def Add_def)

lemma classic_warm_up_3:
  "dlWarmUpPhase (classicServer 0) (runEnv (Second * 30) ticks m) = Inr (Finite 3)"
  by (simp add: dlWarmUpPhase_runEnv classicServer_def suffixToMB_def f64_of_int_def
      dlTimeSpent_def Seconds_def Sub_def Add_def Second_def)

lemma classic_warm_up_1:
  "dlWarmUpPhase (classicServer 0) (runEnv (Second * 90) ticks m) = Inr (Finite 1)"
  by (simp add: dlWarmUpPhase_runEnv classicServer_def suffixToMB_def f64_of_int_def
      dlTimeSpent_def Seconds_def Sub_def Add_def Second_def)

lemma upload_warm_up_4:
  "ulWarmUpPhase (classicServer 0) (runEnv (Second * 4) ticks m) = Inr (Finite 4)"
  by (simp add: ulWarmUpPhase_runEnv classicServer_def Seconds_def Sub_def Add_def Second_def)

lemma upload_warm_up_1:
  "ulWarmUpPhase (classicServer 0) (runEnv (Second * 16) ticks m) = Inr (Finite 1)"
  by (simp add: ulWarmUpPhase_runEnv classicServer_def Seconds_def Sub_def Add_def Second_def)

lemma classic_60_run:
  "downloadTestContext (classicServer 0) False d (runEnv 1500000000 ticks m) =
     (case dlMainPhase (classicServer 0) d 2500 (runEnv 1500000000 ticks m) of
        None \<Rightarrow> None
      | Some tasks \<Rightarrow> Some (None, (classicServer 0)\<lparr>DLSpeed :=
          mainSpeed (totalBytes tasks) 1500000000 (1500000000 + m)\<rparr>))"
proof -
  have suf: "dlSuffix (implInt (runEnv 1500000000 ticks m)) (Type (classicServer 0))
      (Finite 60) 32 6 d = 2500"
    by (simp add: dlSuffix_def classicServer_def dlSuffixes_def)
  have dec: "dlDecide False (Finite 60) 10 = (32, 6, False)"
    by (simp add: dlDecide_def)
  have m: "mainStart (runEnv 1500000000 ticks m) = 1500000000"
    "mainEnd (runEnv 1500000000 ticks m) = 1500000000 + m"
    by (simp_all add: runEnv_def)
  show ?thesis
    by (simp add: downloadTestContext_def classic_warm_up_60 dec suf m cong: option.case_cong)
qed

lemma mainSpeed_zero: "mainSpeed 0 a (a + 1040000000) = Finite 0"
  by (simp add: mainSpeed_def go_div_def compensationFactor_def f64_of_int_def Seconds_def
      Sub_def)

lemma totalBytes_no_chunks: "totalBytes (replicate 4 \<lparr>chunks = [], taskErr = r\<rparr>) = 0"
  by (simp add: totalBytes_def reported_def replicate_4)

lemma dl_all_failed_phase:
  "dlMainPhase (classicServer 0) Second suffix
     (runEnv (Second * 30)
        (replicate 4 (launchTick (Second * 30) [] (Some ''connection refused''))
           @ [stopTick (Second * 30 + Second)]) 1040000000)
   = Some (replicate 4 \<lparr>chunks = [], taskErr = Some ''connection refused''\<rparr>)"
  unfolding dlMainPhase_def runEnv_def
  by (simp only: env.simps admit_four_then_stop) (simp add: downloadRequest_def launchTick_def)

lemma ul_all_failed_phase:
  "ulMainPhase (classicServer 0) Second sizeKB
     (runEnv (Second * 4)
        (replicate 4 (launchTick (Second * 4) [] (Some ''connection refused''))
           @ [stopTick (Second * 4 + Second)]) 1040000000)
   = Some (replicate 4 \<lparr>chunks = [], taskErr = Some ''connection refused''\<rparr>)"
  unfolding ulMainPhase_def runEnv_def
  by (simp only: env.simps admit_four_then_stop) (simp add: uploadRequest_def launchTick_def)

section \<open>Stream and payload selection\<close>

text \<open>
  C1: the choice of streams and weight is a function of the bucket of the warm-up speed,
  the conservative flag and the direction, read off the two tables. A download at
  60 Mbps with conservative mode off takes 32 streams and weight 6, and the Classic
  payload size is then \<open>dlSuffixes[6] = 2500\<close>, which is the size that the main phase
  of such a run requests. An upload in conservative mode takes one stream and weight 7
  whatever the warm-up speed.
\<close>

theorem selection_by_bucket:
  "dlDecide savingMode w n =
     (if savingMode then (6, 3, False)
      else case dlTable (speedBucket w) of
             Some (st, wt) \<Rightarrow> (st, wt, False)
           | None \<Rightarrow> (n, 0, True))
   \<and> ulDecide savingMode w n =
     (if savingMode then (1, 7, False)
      else case ulTable (speedBucket w) of
             Some (st, wt) \<Rightarrow> (st, wt, False)
           | None \<Rightarrow> (n, 0, True))
   \<and> dlDecide False (Finite 60) 10 = (32, 6, False)
   \<and> dlSuffix impl SpeedtestServer (Finite 60) 32 6 d = 2500
   \<and> dlSuffixes ! 6 = 2500
   \<and> downloadTestContext (classicServer 0) False d (runEnv 1500000000 ticks m) =
     (case dlMainPhase (classicServer 0) d 2500 (runEnv 1500000000 ticks m) of
        None \<Rightarrow> None
      | Some tasks \<Rightarrow> Some (None, (classicServer 0)\<lparr>DLSpeed :=
          mainSpeed (totalBytes tasks) 1500000000 (1500000000 + m)\<rparr>))
   \<and> ulDecide True w 2 = (1, 7, False)"
proof -
  have a: "dlDecide False (Finite 60) 10 = (32, 6, False)"
    by (simp add: dlDecide_def)
  have b: "dlSuffix impl SpeedtestServer (Finite 60) 32 6 d = 2500"
    by (simp add: dlSuffix_def dlSuffixes_def)
  have c: "dlSuffixes ! 6 = 2500"
    by (simp add: dlSuffixes_def)
  have e: "ulDecide True w 2 = (1, 7, False)"
    by (simp add: ulDecide_def)
  show ?thesis
    using dlDecide_table [of savingMode w n] ulDecide_table [of savingMode w n] a b c e
      classic_60_run [of d ticks m]
    by (simp only: simp_thms)
qed

section \<open>The too-slow bucket\<close>

text \<open>
  C2: when the warm-up succeeds with a speed that is not above 2.5 Mbps and conservative
  mode is off, the download test and the upload test return without error and store the
  warm-up speed itself, whatever the environment would have supplied to the main phase:
  the main phase does not run.
\<close>

theorem too_slow_reports_warm_up_speed:
  "(dlWarmUpPhase s e = Inr w \<and> \<not> f64_less (Finite (5 / 2)) w \<longrightarrow>
      DownloadTest s False d (e\<lparr>mainStart := a, mainTicks := ts, mainEnd := b\<rparr>)
        = Some (None, s\<lparr>DLSpeed := w\<rparr>))
   \<and> (ulWarmUpPhase s2 e2 = Inr w2 \<and> \<not> f64_less (Finite (5 / 2)) w2 \<longrightarrow>
      UploadTest s2 False d2 (e2\<lparr>mainStart := a2, mainTicks := ts2, mainEnd := b2\<rparr>)
        = Some (None, s2\<lparr>ULSpeed := w2\<rparr>))"
  by (simp add: DownloadTest_def UploadTest_def downloadTestContext_skip uploadTestContext_skip
      dlWarmUpPhase_main_fields ulWarmUpPhase_main_fields)

text \<open>
  Witness for C2: a download whose warm-up takes 90 seconds and an upload whose warm-up
  takes 16 seconds both measure 1 Mbps, and that is the speed stored, although the
  environment holds a task for the main phase.
\<close>

theorem too_slow_reports_warm_up_speed_witness:
  "DownloadTest (classicServer 0) False (Second * 10)
      (runEnv (Second * 90)
         [launchTick (Second * 90) [1048576] None, stopTick (Second * 101)] (Second * 11))
     = Some (None, (classicServer 0)\<lparr>DLSpeed := Finite 1\<rparr>)
   \<and> UploadTest (classicServer 0) False (Second * 10)
      (runEnv (Second * 16)
         [launchTick (Second * 16) [1048576] None, stopTick (Second * 27)] (Second * 11))
     = Some (None, (classicServer 0)\<lparr>ULSpeed := Finite 1\<rparr>)"
  using too_slow_reports_warm_up_speed
    [where s = "classicServer 0" and e = "runEnv (Second * 90) [] 0" and w = "Finite 1"
       and d = "Second * 10" and a = "Second * 90"
       and ts = "[launchTick (Second * 90) [1048576] None, stopTick (Second * 101)]"
       and b = "Second * 90 + Second * 11"
       and ?s2.0 = "classicServer 0" and ?e2.0 = "runEnv (Second * 16) [] 0"
       and ?w2.0 = "Finite 1" and ?d2.0 = "Second * 10" and ?a2.0 = "Second * 16"
       and ?ts2.0 = "[launchTick (Second * 16) [1048576] None, stopTick (Second * 27)]"
       and ?b2.0 = "Second * 16 + Second * 11"]
  by (simp only: classic_warm_up_1 upload_warm_up_1 runEnv_main_fields) simp

section \<open>The speed of the main phase\<close>

text \<open>
  C3 at a concrete run. A download of one second from a Classic server whose warm-up
  measured 3 Mbps runs four streams. Each of the four tasks reads 393216 bytes before the
  deadline cancels it, 1572864 bytes (1.5 MiB) in all, and the join ends 1.04 seconds
  after the loop started. The code divides the counter by 1024 twice as an integer before
  it converts to a float, so it stores \<open>1 * 1.04 * 8 / 1.04 = 8\<close>; the formula of the
  claim gives \<open>1.5 * 1.04 * 8 / 1.04 = 12\<close>.
\<close>

theorem main_speed_counts_whole_mebibytes:
  "totalBytes (replicate 4 \<lparr>chunks = [393216], taskErr = Some ''context deadline exceeded''\<rparr>)
     = 1572864
   \<and> DownloadTest (classicServer 0) False Second
       (runEnv (Second * 30)
          (replicate 4 (launchTick (Second * 30) [393216] (Some ''context deadline exceeded''))
             @ [stopTick (Second * 30 + Second)])
          1040000000)
      = Some (None, (classicServer 0)\<lparr>DLSpeed := Finite 8\<rparr>)
   \<and> Finite (1572864 / 1048576 * (104 / 100) * 8 / (1040000000 / 1000000000)) = Finite 12"
proof -
  let ?run = "\<lparr>chunks = [393216], taskErr = Some ''context deadline exceeded''\<rparr>"
  let ?e = "runEnv (Second * 30)
     (replicate 4 (launchTick (Second * 30) [393216] (Some ''context deadline exceeded''))
        @ [stopTick (Second * 30 + Second)]) 1040000000"
  have tot: "totalBytes (replicate 4 ?run) = 1572864"
    by (simp add: totalBytes_def reported_def byteTracker_small replicate_4)
  have dec: "dlDecide False (Finite 3) 10 = (4, 4, False)"
    by (simp add: dlDecide_def)
  have main: "dlMainPhase (classicServer 0) Second suffix ?e = Some (replicate 4 ?run)" for suffix
    unfolding dlMainPhase_def runEnv_def
    by (simp only: env.simps admit_four_then_stop) (simp add: downloadRequest_def launchTick_def)
  have speed: "mainSpeed 1572864 (Second * 30) (Second * 30 + 1040000000) = Finite 8"
    by (simp add: mainSpeed_def go_div_def compensationFactor_def f64_of_int_def Seconds_def
        Sub_def Second_def)
  have m: "mainStart ?e = Second * 30" "mainEnd ?e = Second * 30 + 1040000000"
    by (simp_all add: runEnv_def)
  have "downloadTestContext (classicServer 0) False Second ?e
      = Some (None, (classicServer 0)\<lparr>DLSpeed :=
          mainSpeed (totalBytes (replicate 4 ?run)) (mainStart ?e) (mainEnd ?e)\<rparr>)"
    by (rule downloadTestContext_main [OF classic_warm_up_3 dec]) (rule main)
  then have run: "downloadTestContext (classicServer 0) False Second ?e
      = Some (None, (classicServer 0)\<lparr>DLSpeed := Finite 8\<rparr>)"
    by (simp only: tot m speed)
  have formula: "Finite (1572864 / 1048576 * (104 / 100) * 8 / (1040000000 / 1000000000))
      = Finite 12"
    by simp
  show ?thesis
    using tot run formula by (simp only: DownloadTest_def simp_thms)
qed

text \<open>
  C6, as the code has it: when the warm-up has succeeded, the bucket is not the too-slow
  one and the admission loop meets a turn at which the deadline has passed or the context
  is done, the download test and the upload test return, and they return without error
  whatever the tasks of the main phase returned, so also when every one of them failed:
  the result of the join is dropped. The speed stored is the one computed from the byte
  counter of the tasks launched, and it is 0 when none of them reported a byte and the
  elapsed time is positive.
\<close>

theorem main_phase_errors_discarded:
  "(dlWarmUpPhase s e = Inr w \<and> dlDecide sm w 10 = (st, wt, False)
      \<and> list_ex (\<lambda>t. After (tickNow t) (Add (mainStart e) d) \<or> tickCtxErr t) (mainTicks e)
     \<longrightarrow> (\<exists>tasks. dlMainPhase s d (dlSuffix (implInt e) (Type s) w st wt d) e = Some tasks
          \<and> DownloadTest s sm d e =
               Some (None, s\<lparr>DLSpeed := mainSpeed (totalBytes tasks) (mainStart e) (mainEnd e)\<rparr>)
          \<and> (list_all (\<lambda>t. reported t = []) tasks \<and> mainStart e < mainEnd e \<longrightarrow>
               DownloadTest s sm d e = Some (None, s\<lparr>DLSpeed := Finite 0\<rparr>))))
   \<and> (ulWarmUpPhase s2 e2 = Inr w2 \<and> ulDecide sm2 w2 2 = (st2, wt2, False)
      \<and> list_ex (\<lambda>t. After (tickNow t) (Add (mainStart e2) d2) \<or> tickCtxErr t) (mainTicks e2)
     \<longrightarrow> (\<exists>tasks. ulMainPhase s2 d2 (ulSuffixes ! wt2) e2 = Some tasks
          \<and> UploadTest s2 sm2 d2 e2 =
               Some (None, s2\<lparr>ULSpeed :=
                 mainSpeed (totalBytes tasks) (mainStart e2) (mainEnd e2)\<rparr>)
          \<and> (list_all (\<lambda>t. reported t = []) tasks \<and> mainStart e2 < mainEnd e2 \<longrightarrow>
               UploadTest s2 sm2 d2 e2 = Some (None, s2\<lparr>ULSpeed := Finite 0\<rparr>))))"
  unfolding DownloadTest_def UploadTest_def
  using downloadTestContext_total [of s e w sm st wt d] uploadTestContext_total [of s2 e2 w2 sm2 st2 wt2 d2]
  by blast

text \<open>
  Witness for C6: a conservative download and an upload in which all four tasks of the
  main phase are refused both return without error and store the speed 0.
\<close>

theorem main_phase_errors_discarded_witness:
  "DownloadTest (classicServer 0) True Second
     (runEnv (Second * 30)
        (replicate 4 (launchTick (Second * 30) [] (Some ''connection refused''))
           @ [stopTick (Second * 30 + Second)]) 1040000000)
     = Some (None, (classicServer 0)\<lparr>DLSpeed := Finite 0\<rparr>)
   \<and> UploadTest (classicServer 0) False Second
     (runEnv (Second * 4)
        (replicate 4 (launchTick (Second * 4) [] (Some ''connection refused''))
           @ [stopTick (Second * 4 + Second)]) 1040000000)
     = Some (None, (classicServer 0)\<lparr>ULSpeed := Finite 0\<rparr>)"
proof -
  let ?f = "\<lparr>chunks = [], taskErr = Some ''connection refused''\<rparr>"
  let ?e = "runEnv (Second * 30)
        (replicate 4 (launchTick (Second * 30) [] (Some ''connection refused''))
           @ [stopTick (Second * 30 + Second)]) 1040000000"
  let ?e2 = "runEnv (Second * 4)
        (replicate 4 (launchTick (Second * 4) [] (Some ''connection refused''))
           @ [stopTick (Second * 4 + Second)]) 1040000000"
  have dec: "dlDecide True (Finite 3) 10 = (6, 3, False)"
    by (simp add: dlDecide_def)
  have dec2: "ulDecide False (Finite 4) 2 = (4, 5, False)"
    by (simp add: ulDecide_def)
  have stop: "list_ex (\<lambda>t. After (tickNow t) (Add (mainStart ?e) Second) \<or> tickCtxErr t)
      (mainTicks ?e)"
    by (simp add: runEnv_def stopTick_def)
  have stop2: "list_ex (\<lambda>t. After (tickNow t) (Add (mainStart ?e2) Second) \<or> tickCtxErr t)
      (mainTicks ?e2)"
    by (simp add: runEnv_def stopTick_def)
  have quiet: "list_all (\<lambda>t. reported t = []) (replicate 4 ?f)"
    by (simp add: replicate_4 reported_def)
  have m: "mainStart ?e < mainEnd ?e" "mainStart ?e2 < mainEnd ?e2"
    by (simp_all add: runEnv_def)
  note inst = main_phase_errors_discarded
      [where s = "classicServer 0" and e = ?e and w = "Finite 3" and sm = True and st = 6
         and wt = 3 and d = Second
         and ?s2.0 = "classicServer 0" and ?e2.0 = ?e2 and ?w2.0 = "Finite 4"
         and ?sm2.0 = False and ?st2.0 = 4 and ?wt2.0 = 5 and ?d2.0 = Second]
  obtain tasks where t: "dlMainPhase (classicServer 0) Second
        (dlSuffix (implInt ?e) (Type (classicServer 0)) (Finite 3) 6 3 Second) ?e = Some tasks"
    and z: "list_all (\<lambda>t. reported t = []) tasks \<and> mainStart ?e < mainEnd ?e \<longrightarrow>
        DownloadTest (classicServer 0) True Second ?e
          = Some (None, (classicServer 0)\<lparr>DLSpeed := Finite 0\<rparr>)"
    using inst [THEN conjunct1] classic_warm_up_3 dec stop by blast
  obtain tasks2 where t2: "ulMainPhase (classicServer 0) Second (ulSuffixes ! 5) ?e2 = Some tasks2"
    and z2: "list_all (\<lambda>t. reported t = []) tasks2 \<and> mainStart ?e2 < mainEnd ?e2 \<longrightarrow>
        UploadTest (classicServer 0) False Second ?e2
          = Some (None, (classicServer 0)\<lparr>ULSpeed := Finite 0\<rparr>)"
    using inst [THEN conjunct2] upload_warm_up_4 dec2 stop2 by blast
  have "tasks = replicate 4 ?f"
    using t dl_all_failed_phase by simp
  moreover have "tasks2 = replicate 4 ?f"
    using t2 ul_all_failed_phase by simp
  ultimately show ?thesis
    using z z2 quiet m by blast
qed

text \<open>
  C6 as stated fails: in this download all four tasks of the main phase are refused, and
  the test returns without error, with the speed 0.
\<close>

theorem all_tasks_failed_counterexample:
  "dlMainPhase (classicServer 0) Second 1500
     (runEnv (Second * 30)
        (replicate 4 (launchTick (Second * 30) [] (Some ''connection refused''))
           @ [stopTick (Second * 30 + Second)]) 1040000000)
     = Some (replicate 4 \<lparr>chunks = [], taskErr = Some ''connection refused''\<rparr>)
   \<and> DownloadTest (classicServer 0) False Second
     (runEnv (Second * 30)
        (replicate 4 (launchTick (Second * 30) [] (Some ''connection refused''))
           @ [stopTick (Second * 30 + Second)]) 1040000000)
     = Some (None, (classicServer 0)\<lparr>DLSpeed := Finite 0\<rparr>)"
proof -
  let ?e = "runEnv (Second * 30)
        (replicate 4 (launchTick (Second * 30) [] (Some ''connection refused''))
           @ [stopTick (Second * 30 + Second)]) 1040000000"
  have dec: "dlDecide False (Finite 3) 10 = (4, 4, False)"
    by (simp add: dlDecide_def)
  have m: "mainStart ?e = Second * 30" "mainEnd ?e = Second * 30 + 1040000000"
    by (simp_all add: runEnv_def)
  have "downloadTestContext (classicServer 0) False Second ?e
      = Some (None, (classicServer 0)\<lparr>DLSpeed :=
          mainSpeed (totalBytes (replicate 4 \<lparr>chunks = [], taskErr = Some ''connection refused''\<rparr>))
          (mainStart ?e) (mainEnd ?e)\<rparr>)"
    by (rule downloadTestContext_main [OF classic_warm_up_3 dec]) (rule dl_all_failed_phase)
  then have "downloadTestContext (classicServer 0) False Second ?e
      = Some (None, (classicServer 0)\<lparr>DLSpeed := Finite 0\<rparr>)"
    by (simp only: totalBytes_no_chunks m mainSpeed_zero)
  then show ?thesis
    using dl_all_failed_phase [of 1500] by (simp only: DownloadTest_def simp_thms)
qed

section \<open>The duration of the warm-up\<close>

text \<open>
  C4 at a concrete run. The server's latency is 300 ms and the warm-up takes 200 ms.
  The download warm-up falls back to the raw span, 0.2 seconds. The upload warm-up has no
  such fallback: it divides by the latency-corrected span of -0.1 seconds, so the
  warm-up speed is \<open>16 / (-0.1) = -160\<close> Mbps, which lands in the too-slow bucket and is
  stored as the upload speed.
\<close>

theorem upload_warm_up_negative_duration:
  "dlTimeSpent 300000000 0 200000000 = Finite (1 / 5)
   \<and> Seconds (Sub 200000000 (Add 0 300000000)) = Finite (- (1 / 10))
   \<and> UploadTest (classicServer 300000000) False (Second * 10) (runEnv 200000000 [] 0)
      = Some (None, (classicServer 300000000)\<lparr>ULSpeed := Finite (- 160)\<rparr>)"
proof -
  have a: "dlTimeSpent 300000000 0 200000000 = Finite (1 / 5)"
    by (simp add: dlTimeSpent_def Seconds_def Sub_def Add_def)
  have b: "Seconds (Sub 200000000 (Add 0 300000000)) = Finite (- (1 / 10))"
    by (simp add: Seconds_def Sub_def Add_def)
  have wu: "ulWarmUpPhase (classicServer 300000000) (runEnv 200000000 [] 0)
      = Inr (Finite (- 160))"
    by (simp add: ulWarmUpPhase_runEnv classicServer_def Seconds_def Sub_def Add_def)
  have "uploadTestContext (classicServer 300000000) False (Second * 10) (runEnv 200000000 [] 0)
      = Some (None, (classicServer 300000000)\<lparr>ULSpeed := Finite (- 160)\<rparr>)"
    by (rule uploadTestContext_skip [OF wu]) simp
  then show ?thesis
    using a b by (simp only: UploadTest_def simp_thms)
qed

section \<open>The upload payload\<close>

text \<open>
  C5, as the code has it: for every \<open>sizeKB\<close> from 1 on whose payload the runtime can
  allocate, the form value is the block \<open>0123456789\<close> repeated \<open>sizeKB * 100 - 51\<close>
  times, and its length is \<open>sizeKB * 1000 - 510\<close> characters.
\<close>

theorem upload_content_length:
  "1 \<le> sizeKB \<and> sizeKB * 1000 - 510 \<le> maxAlloc \<and> maxAlloc \<le> maxInt \<longrightarrow>
     uploadContent maxAlloc sizeKB
       = Some (concat (replicate (nat (sizeKB * 100 - 51)) ''0123456789''))
     \<and> map_option length (uploadContent maxAlloc sizeKB) = Some (nat (sizeKB * 1000 - 510))"
proof (intro impI, elim conjE)
  assume lo: "1 \<le> sizeKB" and fits: "sizeKB * 1000 - 510 \<le> maxAlloc"
    and lim: "maxAlloc \<le> maxInt"
  have hi: "sizeKB * 1000 - 510 \<le> 2 ^ 63 - 1"
    using fits lim by (simp add: maxInt_def)
  have a: "wrap64 (sizeKB * 100) = sizeKB * 100"
    using lo hi by (intro wrap64_id) auto
  have b: "wrap64 (sizeKB * 100 - 51) = sizeKB * 100 - 51"
    using lo hi by (intro wrap64_id) auto
  have c: "nat (sizeKB * 100 - 51) * 10 = nat (sizeKB * 1000 - 510)"
    using lo by linarith
  have d: "uploadContent maxAlloc sizeKB
      = Some (concat (replicate (nat (sizeKB * 100 - 51)) ''0123456789''))"
    using lo hi fits by (simp add: uploadContent_def Repeat_def a b maxInt_def)
  have e: "length ''0123456789'' = 10"
    by simp
  show "uploadContent maxAlloc sizeKB
       = Some (concat (replicate (nat (sizeKB * 100 - 51)) ''0123456789''))
     \<and> map_option length (uploadContent maxAlloc sizeKB) = Some (nat (sizeKB * 1000 - 510))"
    unfolding d using c by (simp only: option.map length_concat_replicate e simp_thms)
qed

text \<open>
  Witness for C5: on a machine that can allocate a string of 1 GiB the warm-up payload,
  \<open>sizeKB = 1500\<close>, has 1499490 characters.
\<close>

theorem upload_content_length_witness:
  "map_option length (uploadContent 1073741824 1500) = Some 1499490"
proof -
  have h: "(1::int) \<le> 1500 \<and> (1500::int) * 1000 - 510 \<le> 1073741824
      \<and> (1073741824::int) \<le> maxInt"
    by (simp add: maxInt_def)
  have "map_option length (uploadContent 1073741824 1500) = Some (nat (1500 * 1000 - 510))"
    using upload_content_length [of 1500 1073741824, THEN mp, OF h] by (rule conjunct2)
  then show ?thesis by simp
qed

text \<open>
  C5 as stated fails twice. At \<open>sizeKB = 1\<close> the block is repeated 49 times, and the
  form value has 490 characters, not 1000. And not every \<open>sizeKB\<close> from 1 on has a
  payload: at \<open>sizeKB = 9223372036854777\<close> the length of the result overflows
  \<open>int\<close>, so \<open>strings.Repeat\<close> panics even on a machine that could allocate any
  string.
\<close>

theorem upload_content_length_counterexample:
  "map_option length (uploadContent maxInt 1) = Some 490
   \<and> uploadContent maxInt 9223372036854777 = None"
  by (simp add: uploadContent_def Repeat_def wrap64_def maxInt_def length_concat_replicate)

section \<open>Errors leave the descriptor as it was\<close>

text \<open>
  C7: whenever one of the six entry points returns an error, the field of the server
  descriptor that the call would have set has the value it had before: \<open>Latency\<close> for
  the two ping tests, \<open>DLSpeed\<close> for the two download tests, \<open>ULSpeed\<close> for the two
  upload tests.
\<close>

theorem error_leaves_field_unmodified:
  "(PingTest s doer = (Some err, s') \<longrightarrow> Latency s' = Latency s)
   \<and> (PingTestContext s doer = (Some err, s') \<longrightarrow> Latency s' = Latency s)
   \<and> (DownloadTest s sm d e = Some (Some err, s') \<longrightarrow> DLSpeed s' = DLSpeed s)
   \<and> (DownloadTestContext s sm d e = Some (Some err, s') \<longrightarrow> DLSpeed s' = DLSpeed s)
   \<and> (UploadTest s sm d e = Some (Some err, s') \<longrightarrow> ULSpeed s' = ULSpeed s)
   \<and> (UploadTestContext s sm d e = Some (Some err, s') \<longrightarrow> ULSpeed s' = ULSpeed s)"
  using PingTestContext_error [of s doer err s'] downloadTestContext_error [of s sm d e err s']
    uploadTestContext_error [of s sm d e err s']
  by (auto simp: PingTest_def DownloadTest_def DownloadTestContext_def UploadTest_def
      UploadTestContext_def)

text \<open>
  Witness for C7: a probe whose second round trip times out and a download and an upload
  whose warm-up tasks time out return the error and the descriptor they were given, whose
  latency is still 7 ns and whose speeds are still 0.
\<close>

theorem error_leaves_field_unmodified_witness:
  "PingTest (classicServer 7) (\<lambda>i req. if i = 1 then DoError ''timeout'' else Reply 30000000)
     = (Some ''timeout'', classicServer 7)
   \<and> DownloadTest (classicServer 7) False (Second * 10) (failEnv ''timeout'')
     = Some (Some ''timeout'', classicServer 7)
   \<and> UploadTest (classicServer 7) False (Second * 10) (failEnv ''timeout'')
     = Some (Some ''timeout'', classicServer 7)
   \<and> Latency (classicServer 7) = 7
   \<and> DLSpeed (classicServer 7) = Finite 0
   \<and> ULSpeed (classicServer 7) = Finite 0"
proof -
  have p: "PingTest (classicServer 7)
      (\<lambda>i req. if i = 1 then DoError ''timeout'' else Reply 30000000)
     = (Some ''timeout'', classicServer 7)"
    by (simp only: PingTest_def PingTestContext_second_fails)
  have dl: "DownloadTest (classicServer 7) False (Second * 10) (failEnv ''timeout'')
     = Some (Some ''timeout'', classicServer 7)"
    by (simp add: DownloadTest_def downloadTestContext_def dlWarmUpPhase_failEnv)
  have ul: "UploadTest (classicServer 7) False (Second * 10) (failEnv ''timeout'')
     = Some (Some ''timeout'', classicServer 7)"
    by (simp add: UploadTest_def uploadTestContext_def ulWarmUpPhase_failEnv)
  have "Latency (classicServer 7) = Latency (classicServer 7)
      \<and> DLSpeed (classicServer 7) = DLSpeed (classicServer 7)
      \<and> ULSpeed (classicServer 7) = ULSpeed (classicServer 7)"
    using error_leaves_field_unmodified
      [where s = "classicServer 7" and s' = "classicServer 7" and err = "''timeout''"
         and doer = "\<lambda>i req. if i = 1 then DoError ''timeout'' else Reply 30000000"
         and sm = False and d = "Second * 10" and e = "failEnv ''timeout''"] p dl ul
    by blast
  then show ?thesis
    using p dl ul by (simp add: classicServer_def)
qed

section \<open>The latency probe\<close>

text \<open>
  C8, as the code has it: after a ping test with the three round-trip spans \<open>t1\<close>,
  \<open>t2\<close>, \<open>t3\<close> the recorded latency is half of the smallest of ten seconds and the
  three spans, in whole nanoseconds, and it is not negative when the three spans are
  positive.
\<close>

theorem ping_latency_half_capped_minimum:
  "doer 0 (pingRequest s) = Reply t1 \<and> doer 1 (pingRequest s) = Reply t2
     \<and> doer 2 (pingRequest s) = Reply t3 \<longrightarrow>
     PingTest s doer =
       (None, s\<lparr>Latency := go_div (min (Second * 10) (min t1 (min t2 t3))) 2\<rparr>)
     \<and> (0 < t1 \<and> 0 < t2 \<and> 0 < t3 \<longrightarrow> 0 \<le> Latency (snd (PingTest s doer)))"
proof (intro impI, elim conjE)
  assume r: "doer 0 (pingRequest s) = Reply t1" "doer 1 (pingRequest s) = Reply t2"
    "doer 2 (pingRequest s) = Reply t3"
  have eq: "PingTest s doer =
       (None, s\<lparr>Latency := go_div (min (Second * 10) (min t1 (min t2 t3))) 2\<rparr>)"
    by (simp add: PingTest_def PingTestContext_replies [where doer = doer and s = s, OF r])
  have "0 < t1 \<and> 0 < t2 \<and> 0 < t3 \<longrightarrow>
      0 \<le> go_div (min (Second * 10) (min t1 (min t2 t3))) 2"
    by (auto simp: go_div_2_nonneg Second_def min_def)
  then show "PingTest s doer =
       (None, s\<lparr>Latency := go_div (min (Second * 10) (min t1 (min t2 t3))) 2\<rparr>)
     \<and> (0 < t1 \<and> 0 < t2 \<and> 0 < t3 \<longrightarrow> 0 \<le> Latency (snd (PingTest s doer)))"
    using eq by simp
qed

text \<open>
  Witness for C8: round trips of 30, 31 and 32 ms give a latency of 15 ms.
\<close>

theorem ping_latency_half_capped_minimum_witness:
  "PingTest (classicServer 0) (\<lambda>i req. Reply (30000000 + 1000000 * int i)) =
     (None, (classicServer 0)\<lparr>Latency := 15000000\<rparr>)
   \<and> 0 \<le> Latency (snd (PingTest (classicServer 0)
        (\<lambda>i req. Reply (30000000 + 1000000 * int i))))"
  using ping_latency_half_capped_minimum
    [where doer = "\<lambda>i req. Reply (30000000 + 1000000 * int i)" and ?t1.0 = 30000000
       and ?t2.0 = 31000000 and ?t3.0 = 32000000 and s = "classicServer 0"]
  by (simp add: Second_def go_div_def)

text \<open>
  C8 as stated fails when every round trip takes longer than ten seconds: for three
  round trips of 11 seconds the recorded latency is 5 seconds, and half of the smallest
  span is 5.5 seconds.
\<close>

theorem ping_latency_counterexample:
  "PingTest (classicServer 0) (\<lambda>i req. Reply (Second * 11)) =
     (None, (classicServer 0)\<lparr>Latency := 5000000000\<rparr>)
   \<and> go_div (min (Second * 11) (min (Second * 11) (Second * 11))) 2 = 5500000000"
  by (simp add: PingTest_def PingTestContext_replies Second_def go_div_def)

text \<open>
  C10: the latency recorded by a successful ping test is at most 5 seconds, and it is
  exactly 5 seconds when each of the three round trips takes ten seconds or longer.
\<close>

theorem ping_latency_at_most_five_seconds:
  "PingTest s doer = (None, s') \<longrightarrow>
     Latency s' \<le> Second * 5
     \<and> (doer 0 (pingRequest s) = Reply t1 \<and> doer 1 (pingRequest s) = Reply t2
        \<and> doer 2 (pingRequest s) = Reply t3
        \<and> Second * 10 \<le> t1 \<and> Second * 10 \<le> t2 \<and> Second * 10 \<le> t3
        \<longrightarrow> Latency s' = Second * 5)"
proof
  assume ok: "PingTest s doer = (None, s')"
  then obtain a b c where r: "doer 0 (pingRequest s) = Reply a"
    "doer 1 (pingRequest s) = Reply b" "doer 2 (pingRequest s) = Reply c"
    using PingTestContext_success [of s doer s'] by (auto simp: PingTest_def)
  have s': "s' = s\<lparr>Latency := go_div (min (Second * 10) (min a (min b c))) 2\<rparr>"
    using ok PingTestContext_replies [where doer = doer and s = s, OF r]
    by (simp add: PingTest_def)
  have le: "Latency s' \<le> Second * 5"
    unfolding s' by (simp add: go_div_2_le)
  have "Latency s' = Second * 5"
    if "doer 0 (pingRequest s) = Reply t1" "doer 1 (pingRequest s) = Reply t2"
      "doer 2 (pingRequest s) = Reply t3"
      "Second * 10 \<le> t1" "Second * 10 \<le> t2" "Second * 10 \<le> t3"
  proof -
    have "a = t1" "b = t2" "c = t3"
      using r that by simp_all
    then have "min (Second * 10) (min a (min b c)) = Second * 10"
      using that by (simp add: min_def)
    then show ?thesis
      unfolding s' by (simp add: go_div_def Second_def)
  qed
  then show "Latency s' \<le> Second * 5
     \<and> (doer 0 (pingRequest s) = Reply t1 \<and> doer 1 (pingRequest s) = Reply t2
        \<and> doer 2 (pingRequest s) = Reply t3
        \<and> Second * 10 \<le> t1 \<and> Second * 10 \<le> t2 \<and> Second * 10 \<le> t3
        \<longrightarrow> Latency s' = Second * 5)"
    using le by blast
qed

text \<open>
  Witness for C10: three round trips of 12 seconds give a latency of exactly 5 seconds.
\<close>

theorem ping_latency_at_most_five_seconds_witness:
  "PingTest (classicServer 0) (\<lambda>i req. Reply (Second * 12)) =
     (None, (classicServer 0)\<lparr>Latency := Second * 5\<rparr>)
   \<and> Latency ((classicServer 0)\<lparr>Latency := Second * 5\<rparr>) = Second * 5"
proof -
  have run: "PingTest (classicServer 0) (\<lambda>i req. Reply (Second * 12)) =
     (None, (classicServer 0)\<lparr>Latency := Second * 5\<rparr>)"
    by (simp add: PingTest_def PingTestContext_replies Second_def go_div_def)
  show ?thesis
    using ping_latency_at_most_five_seconds
      [where s = "classicServer 0" and doer = "\<lambda>i req. Reply (Second * 12)"
         and s' = "(classicServer 0)\<lparr>Latency := Second * 5\<rparr>"
         and ?t1.0 = "Second * 12" and ?t2.0 = "Second * 12" and ?t3.0 = "Second * 12"] run
    by simp
qed

section \<open>The download URL\<close>

text \<open>
  C9: the download URL of the Classic variant built from the base
  \<open>http://x/upload.php\<close> with suffix 750 is \<open>http://x/random750x750.jpg\<close>, and the
  download URL of the Lightweight variant built from the base \<open>http://y\<close> with size 5 is
  \<open>http://y/garbage?cors=true&ckSize=5\<close>.
\<close>

theorem getDownloadURL_examples:
  "getDownloadURL ''http://x/upload.php'' SpeedtestServer 750 = ''http://x/random750x750.jpg''
   \<and> getDownloadURL ''http://y'' LibrespeedServer 5 = ''http://y/garbage?cors=true&ckSize=5''"
  by (simp add: getDownloadURL_def Split_def Itoa_def digits.simps)

end
